theory Spec2Isabelle
  imports Complex_Main "HOL-Library.Char_ord" "HOL-Library.List_Lexorder" "HOL-Library.Sublist"
    "HOL-Library.Multiset"
begin

section \<open>The fine-tuning launcher \<^verbatim>\<open>train.py\<close>\<close>

text \<open>
  The script builds three configuration bundles from literals, loads a pretrained
  tokenizer and model, adds one separator token, builds the datasets, hands everything
  to a library trainer, and reports the results. Its own code is \<^verbatim>\<open>get_dataset\<close>
  and \<^verbatim>\<open>main\<close>; everything else is a call into a library.

  Python floats are modelled by the reals they denote (rounding is not modelled; the
  range of a double is, where the script's behaviour depends on it). Python strings are
  \<^typ>\<open>string\<close>; a dict is an association list in insertion order.
\<close>

subsection \<open>Configuration bundles\<close>

text \<open>The three bundles of \<^verbatim>\<open>main\<close>, with every field the source gives them.\<close>

record model_arguments =
  config_name :: "string option"
  model_name_or_path :: "string option"
  model_type :: string
  tokenizer_name :: "string option"
  cache_dir :: "string option"

record data_arguments =
  train_data_file :: string
  eval_data_file :: string
  line_by_line :: bool
  mlm :: bool
  mlm_probability :: real
  block_size :: int
  overwrite_cache :: bool

record training_arguments =
  output_dir :: string
  overwrite_output_dir :: bool
  do_train :: bool
  do_eval :: bool
  do_predict :: bool
  evaluate_during_training :: bool
  per_gpu_train_batch_size :: int
  per_gpu_eval_batch_size :: int
  gradient_accumulation_steps :: int
  learning_rate :: real
  weight_decay :: real
  adam_epsilon :: real
  max_grad_norm :: real
  num_train_epochs :: real
  max_steps :: int
  warmup_steps :: int
  logging_dir :: "string option"
  logging_first_step :: bool
  logging_steps :: int
  save_steps :: int
  save_total_limit :: int
  no_cuda :: bool
  seed :: int
  fp16 :: bool
  fp16_opt_level :: string
  local_rank :: int

definition sep :: string where
  "sep = ''<|sep|>''"

definition default_model_args :: model_arguments where
  "default_model_args =
     \<lparr>config_name = None, model_name_or_path = Some ''gpt2'', model_type = ''gpt2'',
      tokenizer_name = None, cache_dir = None\<rparr>"

definition default_data_args :: data_arguments where
  "default_data_args =
     \<lparr>train_data_file = ''/data/train.txt'', eval_data_file = ''/data/eval.txt'',
      line_by_line = False, mlm = False, mlm_probability = 15 / 100, block_size = 512,
      overwrite_cache = False\<rparr>"

definition default_training_args :: training_arguments where
  "default_training_args =
     \<lparr>output_dir = ''/gpt2'', overwrite_output_dir = True, do_train = True, do_eval = True,
      do_predict = False, evaluate_during_training = True, per_gpu_train_batch_size = 1,
      per_gpu_eval_batch_size = 1, gradient_accumulation_steps = 1,
      learning_rate = 5 / 100000, weight_decay = 0, adam_epsilon = 1 / 100000000,
      max_grad_norm = 1, num_train_epochs = 5, max_steps = - 1, warmup_steps = 0,
      logging_dir = None, logging_first_step = False, logging_steps = 10000,
      save_steps = 10000, save_total_limit = 10, no_cuda = False, seed = 42, fp16 = False,
      fp16_opt_level = ''O1'', local_rank = - 1\<rparr>"

subsection \<open>The objects of the library\<close>

text \<open>
  The tokenizer, the model, the datasets, the collator and the trainer belong to the
  training framework. They are modelled by what the script passes to them and reads from
  them. A dataset is the constructor call that built it.
\<close>

record tokenizer =
  vocab :: "string list"
  special_tokens_map :: "(string \<times> string) list"

datatype pretrained_config = PretrainedConfig string

record lm_model =
  lm_config :: pretrained_config
  embedding_rows :: nat

datatype dataset =
    LineByLineTextDataset tokenizer string int
  | TextDataset tokenizer string int

record data_collator =
  collator_tokenizer :: tokenizer
  collator_mlm :: bool
  collator_mlm_probability :: real

record trainer =
  trainer_model :: lm_model
  trainer_args :: training_arguments
  trainer_data_collator :: data_collator
  train_dataset :: "dataset option"
  eval_dataset :: "dataset option"
  prediction_loss_only :: bool

type_synonym metrics = "(string \<times> real) list"

text \<open>
  \<^verbatim>\<open>len(tokenizer)\<close> counts the base vocabulary and the added tokens.
  \<^verbatim>\<open>tokenizer.add_special_tokens(d)\<close> records each entry of \<open>d\<close> and appends
  its token to the vocabulary unless the vocabulary already has it.
  \<^verbatim>\<open>model.resize_token_embeddings(n)\<close> gives the embedding table \<open>n\<close> rows.
\<close>

definition len_tokenizer :: "tokenizer \<Rightarrow> nat" where
  "len_tokenizer t = length (vocab t)"

definition add_special_tokens :: "(string \<times> string) list \<Rightarrow> tokenizer \<Rightarrow> tokenizer" where
  "add_special_tokens d t =
     t\<lparr>vocab := fold (\<lambda>v voc. if v \<in> set voc then voc else voc @ [v]) (map snd d) (vocab t),
       special_tokens_map := d @ special_tokens_map t\<rparr>"

definition resize_token_embeddings :: "nat \<Rightarrow> lm_model \<Rightarrow> lm_model" where
  "resize_token_embeddings n m = m\<lparr>embedding_rows := n\<rparr>"

text \<open>The two constructor calls of \<^verbatim>\<open>main\<close>, by keyword as the script passes them.\<close>

definition DataCollatorForLanguageModeling :: "tokenizer \<Rightarrow> bool \<Rightarrow> real \<Rightarrow> data_collator" where
  "DataCollatorForLanguageModeling tok m p =
     \<lparr>collator_tokenizer = tok, collator_mlm = m, collator_mlm_probability = p\<rparr>"

definition Trainer ::
  "lm_model \<Rightarrow> training_arguments \<Rightarrow> data_collator \<Rightarrow> dataset option \<Rightarrow> dataset option \<Rightarrow>
   bool \<Rightarrow> trainer" where
  "Trainer mdl args collator train_ds eval_ds loss_only =
     \<lparr>trainer_model = mdl, trainer_args = args, trainer_data_collator = collator,
      train_dataset = train_ds, eval_dataset = eval_ds, prediction_loss_only = loss_only\<rparr>"

subsection \<open>Errors, events and the world\<close>

text \<open>
  Nothing in the script catches an exception, so a run ends at the first one.
  \<open>LibraryError\<close> is any exception raised inside a library call; the other three are
  raised by the script's own expressions.
\<close>

datatype error =
    LibraryError string
  | TypeError
  | KeyError string
  | OverflowError

text \<open>
  The calls a run makes into the outside, in order. \<open>Train\<close> and \<open>Evaluate\<close> carry
  what the trainer returned or raised, \<open>Timer\<close> the reading it returned.
\<close>

datatype event =
    SetSeed int
  | LoadConfig "string option" "string option"
  | LoadTokenizer "string option" "string option"
  | LoadModel "string option" bool pretrained_config "string option"
  | AddSpecialTokens "(string \<times> string) list"
  | ResizeTokenEmbeddings nat
  | Construct dataset
  | NewCollator data_collator
  | NewTrainer trainer
  | Timer real
  | Train "string option" "error + real"
  | SaveModel
  | SavePretrained tokenizer string
  | Print string
  | Evaluate "error + metrics"
  | OpenWrite string
  | Write string string
  | WandbLog metrics

record world =
  clock :: real
  dirs :: "string set"
  files :: "string \<rightharpoonup> string"
  trace :: "event list"

text \<open>
  What the script cannot decide: the outcome of each library call that may fail or that
  returns data, how long the three long calls take, whether this process is the primary
  one, and how Python prints a float.
\<close>

record library =
  auto_config :: "string option \<Rightarrow> string option \<Rightarrow> error + pretrained_config"
  auto_tokenizer :: "string option \<Rightarrow> string option \<Rightarrow> error + tokenizer"
  auto_model ::
    "string option \<Rightarrow> bool \<Rightarrow> pretrained_config \<Rightarrow> string option \<Rightarrow> error + lm_model"
  dataset_error :: "dataset \<Rightarrow> error option"
  train_outcome :: "trainer \<Rightarrow> string option \<Rightarrow> error + real"
  evaluate_outcome :: "trainer \<Rightarrow> error + metrics"
  is_world_master :: bool
  train_secs :: real
  save_secs :: real
  eval_secs :: real
  float_str :: "real \<Rightarrow> string"

subsection \<open>Runs\<close>

text \<open>A computation takes the world and returns a value or the exception, and the world.\<close>

type_synonym 'a run = "world \<Rightarrow> (error + 'a) \<times> world"

definition ret :: "'a \<Rightarrow> 'a run" where
  "ret a w = (Inr a, w)"

definition raise :: "error \<Rightarrow> 'a run" where
  "raise e w = (Inl e, w)"

definition bnd :: "'a run \<Rightarrow> ('a \<Rightarrow> 'b run) \<Rightarrow> 'b run" where
  "bnd m f w = (case m w of (Inl e, w') \<Rightarrow> (Inl e, w') | (Inr a, w') \<Rightarrow> f a w')"

text \<open>An outside call: it takes \<open>secs\<close> seconds, is recorded, and returns or raises.\<close>

definition call_ext :: "real \<Rightarrow> event \<Rightarrow> error + 'a \<Rightarrow> 'a run" where
  "call_ext secs ev r w = (r, w\<lparr>clock := clock w + secs, trace := trace w @ [ev]\<rparr>)"

definition timer :: "real run" where
  "timer w = (Inr (clock w), w\<lparr>trace := trace w @ [Timer (clock w)]\<rparr>)"

definition isdir :: "string \<Rightarrow> bool run" where
  "isdir p w = (Inr (p \<in> dirs w), w)"

definition open_w :: "string \<Rightarrow> unit run" where
  "open_w path w = (Inr (), w\<lparr>files := (files w)(path \<mapsto> []), trace := trace w @ [OpenWrite path]\<rparr>)"

definition file_write :: "string \<Rightarrow> string \<Rightarrow> unit run" where
  "file_write path s w =
     (Inr (), w\<lparr>files := (files w)(path \<mapsto> (case files w path of None \<Rightarrow> s | Some c \<Rightarrow> c @ s)),
                trace := trace w @ [Write path s]\<rparr>)"

subsection \<open>Python expressions of the script\<close>

text \<open>\<^verbatim>\<open>d[k]\<close> raises \<open>KeyError\<close> for a missing key.\<close>

definition dict_get :: "(string \<times> 'v) list \<Rightarrow> string \<Rightarrow> 'v run" where
  "dict_get d k = (case map_of d k of None \<Rightarrow> raise (KeyError k) | Some v \<Rightarrow> ret v)"

text \<open>\<^verbatim>\<open>sub in s\<close> raises \<open>TypeError\<close> when \<open>s\<close> is \<open>None\<close>.\<close>

definition str_in :: "string \<Rightarrow> string option \<Rightarrow> bool run" where
  "str_in sub s = (case s of None \<Rightarrow> raise TypeError | Some t \<Rightarrow> ret (sublist sub t))"

text \<open>
  \<^verbatim>\<open>math.exp\<close> raises \<open>OverflowError\<close> when the result is beyond the largest
  double, \<open>2 ^ 1024 - 2 ^ 971\<close>.
\<close>

definition float_max :: real where
  "float_max = 2 ^ 1024 - 2 ^ 971"

definition math_exp :: "real \<Rightarrow> real run" where
  "math_exp x = (if float_max < exp x then raise OverflowError else ret (exp x))"

text \<open>\<^verbatim>\<open>os.path.join(a, b)\<close> for two components.\<close>

definition path_join :: "string \<Rightarrow> string \<Rightarrow> string" where
  "path_join a b =
     (if b \<noteq> [] \<and> hd b = CHR ''/'' then b
      else if a = [] \<or> last a = CHR ''/'' then a @ b
      else a @ ''/'' @ b)"

subsection \<open>\<^verbatim>\<open>get_dataset\<close>\<close>

definition construct :: "library \<Rightarrow> dataset \<Rightarrow> dataset run" where
  "construct lib d =
     call_ext 0 (Construct d) (case dataset_error lib d of None \<Rightarrow> Inr d | Some e \<Rightarrow> Inl e)"

definition get_dataset :: "library \<Rightarrow> data_arguments \<Rightarrow> tokenizer \<Rightarrow> bool \<Rightarrow> dataset run" where
  "get_dataset lib args tokenizer evaluate =
     (let file_path = (if evaluate then eval_data_file args else train_data_file args) in
      if line_by_line args
      then construct lib (LineByLineTextDataset tokenizer file_path (block_size args))
      else construct lib (TextDataset tokenizer file_path (block_size args)))"

subsection \<open>\<^verbatim>\<open>main\<close>\<close>

text \<open>
  The body of \<^verbatim>\<open>main\<close> is taken section by section, as its comments divide
  it, each section a computation that returns the locals the later ones read. Logging
  calls and the two unused locals \<^verbatim>\<open>MODEL_TYPES\<close> and \<^verbatim>\<open>results\<close>
  are left out.
\<close>

text \<open>\<^verbatim>\<open># Load tokenizer and model\<close> (lines 129 to 140).\<close>

definition load_tokenizer_and_model :: "library \<Rightarrow> model_arguments \<Rightarrow> (tokenizer \<times> lm_model) run" where
  "load_tokenizer_and_model lib model_args =
     bnd (call_ext 0 (LoadConfig (model_name_or_path model_args) (cache_dir model_args))
            (auto_config lib (model_name_or_path model_args) (cache_dir model_args))) (\<lambda>config.
     bnd (call_ext 0 (LoadTokenizer (model_name_or_path model_args) (cache_dir model_args))
            (auto_tokenizer lib (model_name_or_path model_args) (cache_dir model_args))) (\<lambda>tokenizer.
     bnd (str_in ''.ckpt'' (model_name_or_path model_args)) (\<lambda>from_tf.
     bnd (call_ext 0 (LoadModel (model_name_or_path model_args) from_tf config (cache_dir model_args))
            (auto_model lib (model_name_or_path model_args) from_tf config (cache_dir model_args))) (\<lambda>model.
     ret (tokenizer, model)))))"

text \<open>\<^verbatim>\<open># Add special tokens\<close> (lines 143 and 144).\<close>

definition add_sep_and_resize :: "tokenizer \<Rightarrow> lm_model \<Rightarrow> (tokenizer \<times> lm_model) run" where
  "add_sep_and_resize tokenizer0 model0 =
     bnd (call_ext 0 (AddSpecialTokens [(''sep_token'', sep)])
            (Inr (add_special_tokens [(''sep_token'', sep)] tokenizer0))) (\<lambda>tokenizer.
     bnd (call_ext 0 (ResizeTokenEmbeddings (len_tokenizer tokenizer))
            (Inr (resize_token_embeddings (len_tokenizer tokenizer) model0))) (\<lambda>model.
     ret (tokenizer, model)))"

text \<open>\<^verbatim>\<open># Load dataset\<close> (lines 147 to 155).\<close>

definition load_dataset ::
  "library \<Rightarrow> data_arguments \<Rightarrow> training_arguments \<Rightarrow> tokenizer \<Rightarrow>
   (dataset option \<times> dataset option) run" where
  "load_dataset lib data_args training_args tokenizer =
     bnd (if do_train training_args
          then bnd (get_dataset lib data_args tokenizer False) (\<lambda>d. ret (Some d))
          else ret None) (\<lambda>train_dataset.
     bnd (if do_eval training_args
          then bnd (get_dataset lib data_args tokenizer True) (\<lambda>d. ret (Some d))
          else ret None) (\<lambda>eval_dataset.
     ret (train_dataset, eval_dataset)))"

text \<open>The collator and \<^verbatim>\<open># Initialize trainer\<close> (lines 157 to 171).\<close>

definition initialize_trainer ::
  "data_arguments \<Rightarrow> training_arguments \<Rightarrow> tokenizer \<Rightarrow> lm_model \<Rightarrow>
   dataset option \<Rightarrow> dataset option \<Rightarrow> trainer run" where
  "initialize_trainer data_args training_args tokenizer model train_ds eval_ds =
     (let data_collator =
            DataCollatorForLanguageModeling tokenizer (mlm data_args) (mlm_probability data_args);
          trainer = Trainer model training_args data_collator train_ds eval_ds True
      in
      bnd (call_ext 0 (NewCollator data_collator) (Inr ())) (\<lambda>_.
      bnd (call_ext 0 (NewTrainer trainer) (Inr ())) (\<lambda>_.
      ret trainer)))"

text \<open>
  The resume path, \<^verbatim>\<open># Train the model\<close> and
  \<^verbatim>\<open># Calculate training time\<close> (lines 173 to 189). The section returns the
  training loss and the two timer readings.
\<close>

definition train_the_model ::
  "library \<Rightarrow> model_arguments \<Rightarrow> training_arguments \<Rightarrow> tokenizer \<Rightarrow> trainer \<Rightarrow>
   (real \<times> real \<times> real) run" where
  "train_the_model lib model_args training_args tokenizer trainer =
     bnd (case model_name_or_path model_args of
            None \<Rightarrow> ret None
          | Some p \<Rightarrow> bnd (isdir p) (\<lambda>b. ret (if b then Some p else None))) (\<lambda>model_path.
     bnd timer (\<lambda>start.
     bnd (call_ext (train_secs lib) (Train model_path (train_outcome lib trainer model_path))
            (train_outcome lib trainer model_path)) (\<lambda>training_loss.
     bnd timer (\<lambda>end.
     bnd (call_ext (save_secs lib) SaveModel (Inr ())) (\<lambda>_.
     bnd (if is_world_master lib
          then call_ext 0 (SavePretrained tokenizer (output_dir training_args)) (Inr ())
          else ret ()) (\<lambda>_.
     bnd (call_ext 0
            (Print (''Training took '' @ float_str lib ((end - start) / 3600) @ '' hours.''))
            (Inr ())) (\<lambda>_.
     ret (training_loss, start, end))))))))"

text \<open>\<^verbatim>\<open># Evaluate model\<close> (lines 194 and 195).\<close>

definition evaluate_model :: "library \<Rightarrow> trainer \<Rightarrow> (metrics \<times> real) run" where
  "evaluate_model lib trainer =
     bnd (call_ext (eval_secs lib) (Evaluate (evaluate_outcome lib trainer))
            (evaluate_outcome lib trainer)) (\<lambda>eval_output.
     bnd (dict_get eval_output ''eval_loss'') (\<lambda>eval_loss.
     bnd (math_exp eval_loss) (\<lambda>perplexity.
     ret (eval_output, perplexity))))"

text \<open>
  \<^verbatim>\<open># Evaluation output\<close> (lines 200 to 204): the file is opened for writing,
  which empties it, and the loop over \<^verbatim>\<open>sorted(result.keys())\<close> makes one
  \<^verbatim>\<open>writer.write("%s = %s\n" % (key, str(result[key])))\<close> per key.
\<close>

primrec write_lines :: "library \<Rightarrow> string \<Rightarrow> metrics \<Rightarrow> string list \<Rightarrow> unit run" where
  "write_lines lib path result [] = ret ()"
| "write_lines lib path result (key # keys) =
     bnd (dict_get result key) (\<lambda>v.
     bnd (file_write path (key @ '' = '' @ float_str lib v @ [CHR 0x0A])) (\<lambda>_.
     write_lines lib path result keys))"

definition write_results :: "library \<Rightarrow> string \<Rightarrow> metrics \<Rightarrow> unit run" where
  "write_results lib path result =
     bnd (open_w path) (\<lambda>_. write_lines lib path result (sort (map fst result)))"

text \<open>\<^verbatim>\<open># Log evaluation and result\<close> (lines 208 to 211).\<close>

definition log_results :: "real \<Rightarrow> metrics \<Rightarrow> metrics \<Rightarrow> real \<Rightarrow> real \<Rightarrow> unit run" where
  "log_results training_loss eval_output result start end =
     bnd (call_ext 0 (WandbLog [(''train_loss'', training_loss)]) (Inr ())) (\<lambda>_.
     bnd (dict_get eval_output ''eval_loss'') (\<lambda>eval_loss.
     bnd (call_ext 0 (WandbLog [(''eval_loss'', eval_loss)]) (Inr ())) (\<lambda>_.
     bnd (call_ext 0 (WandbLog result) (Inr ())) (\<lambda>_.
     call_ext 0 (WandbLog [(''train_time'', (end - start) / 3600)]) (Inr ())))))"

text \<open>
  The whole body, for any three bundles; \<open>main\<close> is the body at the bundles the script
  spells out.
\<close>

definition main_body ::
  "library \<Rightarrow> model_arguments \<Rightarrow> data_arguments \<Rightarrow> training_arguments \<Rightarrow> unit run" where
  "main_body lib model_args data_args training_args =
     bnd (call_ext 0 (SetSeed (seed training_args)) (Inr ())) (\<lambda>_.
     bnd (load_tokenizer_and_model lib model_args) (\<lambda>(tokenizer0, model0).
     bnd (add_sep_and_resize tokenizer0 model0) (\<lambda>(tokenizer, model).
     bnd (load_dataset lib data_args training_args tokenizer) (\<lambda>(train_ds, eval_ds).
     bnd (initialize_trainer data_args training_args tokenizer model train_ds eval_ds) (\<lambda>trainer.
     bnd (train_the_model lib model_args training_args tokenizer trainer)
       (\<lambda>(training_loss, start, end).
     bnd (evaluate_model lib trainer) (\<lambda>(eval_output, perplexity).
     let result = [(''perplexity'', perplexity)];
         output_eval_file = path_join (output_dir training_args) ''eval_results_lm.txt''
     in
     bnd (write_results lib output_eval_file result) (\<lambda>_.
     log_results training_loss eval_output result start end))))))))"

definition main :: "library \<Rightarrow> unit run" where
  "main lib = main_body lib default_model_args default_data_args default_training_args"

subsection \<open>What the specification says \<^verbatim>\<open>get_dataset\<close> builds\<close>

text \<open>
  Written from the specification, to compare \<open>get_dataset\<close> with: the eval file when
  the evaluate flag is set and the train file otherwise; the line-by-line constructor when
  the line-by-line flag is set and the contiguous-chunk constructor otherwise; the
  tokenizer and the configured block size passed on.
\<close>

definition spec_file_path :: "data_arguments \<Rightarrow> bool \<Rightarrow> string" where
  "spec_file_path args evaluate = (if evaluate then eval_data_file args else train_data_file args)"

definition spec_dataset :: "data_arguments \<Rightarrow> tokenizer \<Rightarrow> bool \<Rightarrow> dataset" where
  "spec_dataset args tok evaluate =
     (if line_by_line args
      then LineByLineTextDataset tok (spec_file_path args evaluate) (block_size args)
      else TextDataset tok (spec_file_path args evaluate) (block_size args))"


text \<open>The readings of the wall clock.\<close>

fun is_timer :: "event \<Rightarrow> bool" where
  "is_timer (Timer t) = True"
| "is_timer e = False"

subsection \<open>A stub library for concrete runs\<close>

text \<open>
  A fake of the library, small enough to run: a three-token vocabulary, a training call
  that takes two hours and returns loss 2, an evaluation that returns loss 0 and, as the
  library's trainer does, raises when the trainer was given no evaluation dataset.
  \<open>float_str\<close> prints the three floats these runs produce as Python does.
\<close>

definition stub_tokenizer :: tokenizer where
  "stub_tokenizer = \<lparr>vocab = [''<|endoftext|>'', ''a'', ''b''], special_tokens_map = []\<rparr>"

definition stub_library :: library where
  "stub_library =
     \<lparr>auto_config = (\<lambda>name cache. Inr (PretrainedConfig ''gpt2'')),
      auto_tokenizer = (\<lambda>name cache. Inr stub_tokenizer),
      auto_model = (\<lambda>name from_tf config cache. Inr \<lparr>lm_config = config, embedding_rows = 3\<rparr>),
      dataset_error = (\<lambda>d. None),
      train_outcome = (\<lambda>tr path. Inr 2),
      evaluate_outcome = (\<lambda>tr. case eval_dataset tr of
          None \<Rightarrow> Inl (LibraryError ''Trainer: evaluation requires an eval_dataset.'')
        | Some d \<Rightarrow> Inr [(''eval_loss'', 0)]),
      is_world_master = True,
      train_secs = 7200, save_secs = 60, eval_secs = 600,
      float_str = (\<lambda>x. if x = 0 then ''0.0'' else if x = 1 then ''1.0'' else if x = 2 then ''2.0''
                       else ''?'')\<rparr>"

text \<open>The same library with an evaluation that returns a loss of 1024.\<close>

definition overflow_library :: library where
  "overflow_library = stub_library\<lparr>evaluate_outcome := (\<lambda>tr. Inr [(''eval_loss'', 1024)])\<rparr>"



text \<open>A world where the output directory exists and an old results file is in it.\<close>

definition world0 :: world where
  "world0 =
     \<lparr>clock = 100, dirs = {''/gpt2''},
      files = [''/gpt2/eval_results_lm.txt'' \<mapsto> ''perplexity = 37.5''],
      trace = []\<rparr>"

section \<open>What each section of the script does\<close>

text \<open>
  Each section of \<open>main\<close>, run on any world: what it returns or raises, and the
  events it adds to the trace.
\<close>

lemma get_dataset_eq:
  "get_dataset lib args tok ev w =
     (case dataset_error lib (spec_dataset args tok ev) of
        None \<Rightarrow> Inr (spec_dataset args tok ev) | Some e \<Rightarrow> Inl e,
      w\<lparr>trace := trace w @ [Construct (spec_dataset args tok ev)]\<rparr>)"
  by (auto simp: get_dataset_def construct_def call_ext_def spec_dataset_def spec_file_path_def Let_def split: option.splits)

lemmas step_defs = bnd_def call_ext_def ret_def raise_def timer_def isdir_def str_in_def
  dict_get_def math_exp_def

lemma load_tokenizer_and_model_eq:
  "load_tokenizer_and_model lib ma w =
     (case auto_config lib (model_name_or_path ma) (cache_dir ma) of
        Inl e \<Rightarrow>
          (Inl e, w\<lparr>trace := trace w @ [LoadConfig (model_name_or_path ma) (cache_dir ma)]\<rparr>)
      | Inr cfg \<Rightarrow>
     (case auto_tokenizer lib (model_name_or_path ma) (cache_dir ma) of
        Inl e \<Rightarrow>
          (Inl e, w\<lparr>trace := trace w @
             [LoadConfig (model_name_or_path ma) (cache_dir ma),
              LoadTokenizer (model_name_or_path ma) (cache_dir ma)]\<rparr>)
      | Inr tok \<Rightarrow>
     (case model_name_or_path ma of
        None \<Rightarrow>
          (Inl TypeError, w\<lparr>trace := trace w @
             [LoadConfig None (cache_dir ma), LoadTokenizer None (cache_dir ma)]\<rparr>)
      | Some name \<Rightarrow>
          (case auto_model lib (Some name) (sublist ''.ckpt'' name) cfg (cache_dir ma) of
             Inl e \<Rightarrow> Inl e | Inr mdl \<Rightarrow> Inr (tok, mdl),
           w\<lparr>trace := trace w @
             [LoadConfig (Some name) (cache_dir ma), LoadTokenizer (Some name) (cache_dir ma),
              LoadModel (Some name) (sublist ''.ckpt'' name) cfg (cache_dir ma)]\<rparr>))))"
  by (auto simp: load_tokenizer_and_model_def step_defs split: sum.splits option.splits)

lemma add_sep_and_resize_eq:
  "add_sep_and_resize tok0 mdl0 w =
     (Inr (add_special_tokens [(''sep_token'', sep)] tok0,
           resize_token_embeddings (len_tokenizer (add_special_tokens [(''sep_token'', sep)] tok0)) mdl0),
      w\<lparr>trace := trace w @
         [AddSpecialTokens [(''sep_token'', sep)],
          ResizeTokenEmbeddings (len_tokenizer (add_special_tokens [(''sep_token'', sep)] tok0))]\<rparr>)"
  by (simp add: add_sep_and_resize_def step_defs)

lemma load_dataset_eq:
  "load_dataset lib da ta tok w =
     (case (if do_train ta then dataset_error lib (spec_dataset da tok False) else None) of
        Some e \<Rightarrow> (Inl e, w\<lparr>trace := trace w @ [Construct (spec_dataset da tok False)]\<rparr>)
      | None \<Rightarrow>
          (case (if do_eval ta then dataset_error lib (spec_dataset da tok True) else None) of
             Some e \<Rightarrow> Inl e
           | None \<Rightarrow> Inr (if do_train ta then Some (spec_dataset da tok False) else None,
                          if do_eval ta then Some (spec_dataset da tok True) else None),
           w\<lparr>trace := trace w @
             (if do_train ta then [Construct (spec_dataset da tok False)] else []) @
             (if do_eval ta then [Construct (spec_dataset da tok True)] else [])\<rparr>))"
  by (auto simp: load_dataset_def get_dataset_eq step_defs split: option.splits)

lemma initialize_trainer_eq:
  "initialize_trainer da ta tok mdl tds eds w =
     (Inr (Trainer mdl ta (DataCollatorForLanguageModeling tok (mlm da) (mlm_probability da)) tds eds True),
      w\<lparr>trace := trace w @
         [NewCollator (DataCollatorForLanguageModeling tok (mlm da) (mlm_probability da)),
          NewTrainer (Trainer mdl ta (DataCollatorForLanguageModeling tok (mlm da) (mlm_probability da))
             tds eds True)]\<rparr>)"
  by (simp add: initialize_trainer_def step_defs Let_def)

lemma train_the_model_eq:
  "train_the_model lib ma ta tok tr w =
     (let mp = (case model_name_or_path ma of None \<Rightarrow> None
                | Some p \<Rightarrow> if p \<in> dirs w then Some p else None)
      in case train_outcome lib tr mp of
        Inl e \<Rightarrow>
          (Inl e, w\<lparr>clock := clock w + train_secs lib,
                     trace := trace w @ [Timer (clock w), Train mp (Inl e)]\<rparr>)
      | Inr tloss \<Rightarrow>
          (Inr (tloss, clock w, clock w + train_secs lib),
           w\<lparr>clock := clock w + train_secs lib + save_secs lib,
              trace := trace w @
                [Timer (clock w), Train mp (Inr tloss), Timer (clock w + train_secs lib), SaveModel] @
                (if is_world_master lib then [SavePretrained tok (output_dir ta)] else []) @
                [Print (''Training took '' @ float_str lib (train_secs lib / 3600) @ '' hours.'')]\<rparr>))"
  by (auto simp: train_the_model_def step_defs Let_def split: sum.splits option.splits)

lemma evaluate_model_eq:
  "evaluate_model lib tr w =
     (case evaluate_outcome lib tr of Inl e \<Rightarrow> Inl e
      | Inr ev \<Rightarrow>
         (case map_of ev ''eval_loss'' of None \<Rightarrow> Inl (KeyError ''eval_loss'')
          | Some loss \<Rightarrow>
            if float_max < exp loss then Inl OverflowError else Inr (ev, exp loss)),
      w\<lparr>clock := clock w + eval_secs lib,
        trace := trace w @ [Evaluate (evaluate_outcome lib tr)]\<rparr>)"
  by (auto simp: evaluate_model_def step_defs split: sum.splits option.splits)

lemma write_results_single:
  "write_results lib path [(k, v)] w =
     (Inr (), w\<lparr>files := (files w)(path \<mapsto> k @ '' = '' @ float_str lib v @ [CHR 0x0A]),
               trace := trace w @ [OpenWrite path, Write path (k @ '' = '' @ float_str lib v @ [CHR 0x0A])]\<rparr>)"
  by (simp add: write_results_def bnd_def open_w_def file_write_def dict_get_def ret_def)

lemma log_results_eq:
  "log_results tloss ev result start end w =
     (case map_of ev ''eval_loss'' of
        None \<Rightarrow> (Inl (KeyError ''eval_loss''), w\<lparr>trace := trace w @ [WandbLog [(''train_loss'', tloss)]]\<rparr>)
      | Some loss \<Rightarrow>
          (Inr (), w\<lparr>trace := trace w @
             [WandbLog [(''train_loss'', tloss)], WandbLog [(''eval_loss'', loss)], WandbLog result,
              WandbLog [(''train_time'', (end - start) / 3600)]]\<rparr>))"
  by (auto simp: log_results_def step_defs split: sum.splits option.splits)

lemmas section_eqs = load_tokenizer_and_model_eq add_sep_and_resize_eq load_dataset_eq
  initialize_trainer_eq train_the_model_eq evaluate_model_eq write_results_single log_results_eq

text \<open>Rules for reading a trace whose optional events depend on a flag.\<close>

lemma mem_if_single: "x \<in> set (if c then [a] else []) \<longleftrightarrow> c \<and> x = a"
  by auto


text \<open>The range of \<^verbatim>\<open>math.exp\<close>: \<open>exp 1024\<close> is beyond the largest double, \<open>exp 0\<close> is not.\<close>

lemma exp_overflow:
  assumes "1024 \<le> (x::real)"
  shows "float_max < exp x"
proof -
  have "(2::real) \<le> exp 1"
    using exp_ge_add_one_self [of "1::real"] by simp
  then have "(2::real) ^ 1024 \<le> exp 1 ^ 1024"
    by (intro power_mono) simp_all
  also have "\<dots> = exp (1024::real)"
    using exp_of_nat_mult [of 1024 "1::real"] by simp
  also have "\<dots> \<le> exp x"
    using assms by simp
  finally have "(2::real) ^ 1024 \<le> exp x" .
  moreover have "float_max < 2 ^ 1024"
    by (simp add: float_max_def)
  ultimately show ?thesis by linarith
qed

lemma exp_zero_in_range: "\<not> float_max < 1"
  by (simp add: float_max_def)

section \<open>Whole runs\<close>


lemma if_overflow_eq_Inr:
  "(if c then Inl e else Inr x) = Inr y \<longleftrightarrow> \<not> c \<and> x = y"
  by simp

text \<open>
  Any run in which the evaluation returned metrics holding an evaluation loss: it either
  stops at the overflow, with nothing written, or completes and reports.
\<close>

lemma evaluated_run:
  assumes "main_body lib ma da ta (w0\<lparr>trace := []\<rparr>) = (r, w)"
      and "Evaluate (Inr ev) \<in> set (trace w)"
      and "map_of ev ''eval_loss'' = Some loss"
  shows "if float_max < exp loss
         then r = Inl OverflowError \<and> last (trace w) = Evaluate (Inr ev) \<and> files w = files w0
         else r = Inr () \<and>
           files w = (files w0)(path_join (output_dir ta) ''eval_results_lm.txt'' \<mapsto>
              ''perplexity = '' @ float_str lib (exp loss) @ [CHR 0x0A]) \<and>
           (\<forall>p s. Write p s \<in> set (trace w) \<longrightarrow>
              p = path_join (output_dir ta) ''eval_results_lm.txt'' \<and>
              s = ''perplexity = '' @ float_str lib (exp loss) @ [CHR 0x0A]) \<and>
           Write (path_join (output_dir ta) ''eval_results_lm.txt'')
             (''perplexity = '' @ float_str lib (exp loss) @ [CHR 0x0A]) \<in> set (trace w) \<and>
           WandbLog [(''eval_loss'', loss)] \<in> set (trace w) \<and>
           WandbLog [(''perplexity'', exp loss)] \<in> set (trace w)"
proof (cases "float_max < exp loss")
  case True
  with assms show ?thesis
    unfolding main_body_def
    by (clarsimp simp: bnd_def call_ext_def section_eqs Let_def mem_if_single
          split: sum.splits option.splits split del: if_split)
next
  case False
  with assms show ?thesis
    unfolding main_body_def
    by (clarsimp simp: bnd_def call_ext_def section_eqs Let_def mem_if_single
          split: sum.splits option.splits split del: if_split)
qed

text \<open>A run that completes: the library calls that returned, and the whole trace.\<close>

lemma main_body_success:
  assumes "main_body lib ma da ta w0 = (Inr (), w)"
  shows "\<exists>name cfg tok0 mdl0 tloss ev loss.
     model_name_or_path ma = Some name \<and>
     auto_config lib (Some name) (cache_dir ma) = Inr cfg \<and>
     auto_tokenizer lib (Some name) (cache_dir ma) = Inr tok0 \<and>
     auto_model lib (Some name) (sublist ''.ckpt'' name) cfg (cache_dir ma) = Inr mdl0 \<and>
     train_outcome lib
       (Trainer
          (resize_token_embeddings
             (len_tokenizer (add_special_tokens [(''sep_token'', sep)] tok0)) mdl0)
          ta
          (DataCollatorForLanguageModeling
             (add_special_tokens [(''sep_token'', sep)] tok0) (mlm da) (mlm_probability da))
          (if do_train ta
           then Some (spec_dataset da (add_special_tokens [(''sep_token'', sep)] tok0) False)
           else None)
          (if do_eval ta
           then Some (spec_dataset da (add_special_tokens [(''sep_token'', sep)] tok0) True)
           else None)
          True)
       (if name \<in> dirs w0 then Some name else None) = Inr tloss \<and>
     evaluate_outcome lib
       (Trainer
          (resize_token_embeddings
             (len_tokenizer (add_special_tokens [(''sep_token'', sep)] tok0)) mdl0)
          ta
          (DataCollatorForLanguageModeling
             (add_special_tokens [(''sep_token'', sep)] tok0) (mlm da) (mlm_probability da))
          (if do_train ta
           then Some (spec_dataset da (add_special_tokens [(''sep_token'', sep)] tok0) False)
           else None)
          (if do_eval ta
           then Some (spec_dataset da (add_special_tokens [(''sep_token'', sep)] tok0) True)
           else None)
          True) = Inr ev \<and>
     map_of ev ''eval_loss'' = Some loss \<and>
     exp loss \<le> float_max \<and>
     clock w = clock w0 + train_secs lib + save_secs lib + eval_secs lib \<and>
     files w = (files w0)(path_join (output_dir ta) ''eval_results_lm.txt'' \<mapsto>
        ''perplexity = '' @ float_str lib (exp loss) @ [CHR 0x0A]) \<and>
     trace w = trace w0 @
       [SetSeed (seed ta), LoadConfig (Some name) (cache_dir ma),
        LoadTokenizer (Some name) (cache_dir ma),
        LoadModel (Some name) (sublist ''.ckpt'' name) cfg (cache_dir ma),
        AddSpecialTokens [(''sep_token'', sep)],
        ResizeTokenEmbeddings (len_tokenizer (add_special_tokens [(''sep_token'', sep)] tok0))] @
       (if do_train ta
        then [Construct (spec_dataset da (add_special_tokens [(''sep_token'', sep)] tok0) False)]
        else []) @
       (if do_eval ta
        then [Construct (spec_dataset da (add_special_tokens [(''sep_token'', sep)] tok0) True)]
        else []) @
       [NewCollator (DataCollatorForLanguageModeling
           (add_special_tokens [(''sep_token'', sep)] tok0) (mlm da) (mlm_probability da)),
        NewTrainer (Trainer
           (resize_token_embeddings
              (len_tokenizer (add_special_tokens [(''sep_token'', sep)] tok0)) mdl0)
           ta
           (DataCollatorForLanguageModeling
              (add_special_tokens [(''sep_token'', sep)] tok0) (mlm da) (mlm_probability da))
           (if do_train ta
            then Some (spec_dataset da (add_special_tokens [(''sep_token'', sep)] tok0) False)
            else None)
           (if do_eval ta
            then Some (spec_dataset da (add_special_tokens [(''sep_token'', sep)] tok0) True)
            else None)
           True),
        Timer (clock w0),
        Train (if name \<in> dirs w0 then Some name else None) (Inr tloss),
        Timer (clock w0 + train_secs lib),
        SaveModel] @
       (if is_world_master lib
        then [SavePretrained (add_special_tokens [(''sep_token'', sep)] tok0) (output_dir ta)]
        else []) @
       [Print (''Training took '' @ float_str lib (train_secs lib / 3600) @ '' hours.''),
        Evaluate (Inr ev),
        OpenWrite (path_join (output_dir ta) ''eval_results_lm.txt''),
        Write (path_join (output_dir ta) ''eval_results_lm.txt'')
          (''perplexity = '' @ float_str lib (exp loss) @ [CHR 0x0A]),
        WandbLog [(''train_loss'', tloss)],
        WandbLog [(''eval_loss'', loss)],
        WandbLog [(''perplexity'', exp loss)],
        WandbLog [(''train_time'', train_secs lib / 3600)]]"
  using assms unfolding main_body_def
  by (clarsimp simp: bnd_def call_ext_def section_eqs Let_def if_overflow_eq_Inr
        split: sum.splits option.splits split del: if_split)

section \<open>Concrete runs on the stub library\<close>

lemmas stub_defs = main_def main_body_def bnd_def call_ext_def section_eqs Let_def
  stub_library_def overflow_library_def world0_def
  default_model_args_def default_data_args_def default_training_args_def
  spec_dataset_def spec_file_path_def Trainer_def path_join_def sublist_code

text \<open>The script as written, on the stub library: the run completes.\<close>

lemma stub_run:
  "main stub_library world0 =
     (Inr (),
      world0\<lparr>clock := 7960,
        files := [''/gpt2/eval_results_lm.txt'' \<mapsto> ''perplexity = 1.0'' @ [CHR 0x0A]],
        trace :=
          [SetSeed 42, LoadConfig (Some ''gpt2'') None, LoadTokenizer (Some ''gpt2'') None,
           LoadModel (Some ''gpt2'') False (PretrainedConfig ''gpt2'') None,
           AddSpecialTokens [(''sep_token'', sep)],
           ResizeTokenEmbeddings (len_tokenizer (add_special_tokens [(''sep_token'', sep)] stub_tokenizer)),
           Construct (TextDataset (add_special_tokens [(''sep_token'', sep)] stub_tokenizer)
             ''/data/train.txt'' 512),
           Construct (TextDataset (add_special_tokens [(''sep_token'', sep)] stub_tokenizer)
             ''/data/eval.txt'' 512),
           NewCollator (DataCollatorForLanguageModeling
             (add_special_tokens [(''sep_token'', sep)] stub_tokenizer) False (15 / 100)),
           NewTrainer (Trainer
             (resize_token_embeddings
                (len_tokenizer (add_special_tokens [(''sep_token'', sep)] stub_tokenizer))
                \<lparr>lm_config = PretrainedConfig ''gpt2'', embedding_rows = 3\<rparr>)
             default_training_args
             (DataCollatorForLanguageModeling
                (add_special_tokens [(''sep_token'', sep)] stub_tokenizer) False (15 / 100))
             (Some (TextDataset (add_special_tokens [(''sep_token'', sep)] stub_tokenizer)
                ''/data/train.txt'' 512))
             (Some (TextDataset (add_special_tokens [(''sep_token'', sep)] stub_tokenizer)
                ''/data/eval.txt'' 512))
             True),
           Timer 100, Train None (Inr 2), Timer 7300, SaveModel,
           SavePretrained (add_special_tokens [(''sep_token'', sep)] stub_tokenizer) ''/gpt2'',
           Print ''Training took 2.0 hours.'',
           Evaluate (Inr [(''eval_loss'', 0)]),
           OpenWrite ''/gpt2/eval_results_lm.txt'',
           Write ''/gpt2/eval_results_lm.txt'' (''perplexity = 1.0'' @ [CHR 0x0A]),
           WandbLog [(''train_loss'', 2)], WandbLog [(''eval_loss'', 0)],
           WandbLog [(''perplexity'', 1)], WandbLog [(''train_time'', 2)]]\<rparr>)"
  by (simp add: stub_defs exp_zero_in_range)

text \<open>Facts about the stub run that the witnesses share.\<close>

lemma stub_float_str:
  "float_str stub_library 0 = ''0.0''" "float_str stub_library 1 = ''1.0''"
  "float_str stub_library 2 = ''2.0''"
  by (simp_all add: stub_library_def)

lemma default_results_path:
  "path_join (output_dir default_training_args) ''eval_results_lm.txt'' = ''/gpt2/eval_results_lm.txt''"
  by (simp add: default_training_args_def path_join_def)

lemma world0_fresh: "world0\<lparr>trace := []\<rparr> = world0"
  by (simp add: world0_def)

lemma stub_body_run:
  "main_body stub_library default_model_args default_data_args default_training_args
     (world0\<lparr>trace := []\<rparr>) = (Inr (), snd (main stub_library world0))"
  by (simp add: world0_fresh main_def [symmetric] stub_run)

text \<open>The script as written, on the library whose evaluation returns a loss of 1024.\<close>

lemma overflow_run:
  "fst (main overflow_library world0) = Inl OverflowError \<and>
   last (trace (snd (main overflow_library world0))) = Evaluate (Inr [(''eval_loss'', 1024)]) \<and>
   files (snd (main overflow_library world0)) = files world0"
  by (simp add: stub_defs exp_overflow)

lemma overflow_evaluated:
  "Evaluate (Inr [(''eval_loss'', 1024)]) \<in> set (trace (snd (main overflow_library world0)))"
  by (simp add: stub_defs exp_overflow)

lemma overflow_body_run:
  "main_body overflow_library default_model_args default_data_args default_training_args
     (world0\<lparr>trace := []\<rparr>) = (fst (main overflow_library world0), snd (main overflow_library world0))"
  by (simp add: world0_fresh main_def [symmetric])




section \<open>The claims\<close>




text \<open>
  C2. For every evaluation result the trainer returns, the perplexity that \<open>main\<close>
  reports (to the metrics service and in the results file) is the exponential of the
  returned evaluation loss, whenever that exponential is within the range of a float; for an
  evaluation loss of 0 it is exactly 1, and the run completes.
\<close>

theorem perplexity_is_exp_of_eval_loss:
  assumes "main_body lib ma da ta (w0\<lparr>trace := []\<rparr>) = (r, w)"
      and "Evaluate (Inr ev) \<in> set (trace w)"
      and "map_of ev ''eval_loss'' = Some loss"
  shows "(exp loss \<le> float_max \<longrightarrow>
            r = Inr () \<and> WandbLog [(''perplexity'', exp loss)] \<in> set (trace w) \<and>
            Write (path_join (output_dir ta) ''eval_results_lm.txt'')
              (''perplexity = '' @ float_str lib (exp loss) @ [CHR 0x0A]) \<in> set (trace w)) \<and>
         (loss = 0 \<longrightarrow>
            r = Inr () \<and> WandbLog [(''perplexity'', 1)] \<in> set (trace w) \<and>
            Write (path_join (output_dir ta) ''eval_results_lm.txt'')
              (''perplexity = '' @ float_str lib 1 @ [CHR 0x0A]) \<in> set (trace w))"
proof -
  have in_range: "r = Inr () \<and> WandbLog [(''perplexity'', exp loss)] \<in> set (trace w) \<and>
      Write (path_join (output_dir ta) ''eval_results_lm.txt'')
        (''perplexity = '' @ float_str lib (exp loss) @ [CHR 0x0A]) \<in> set (trace w)"
    if "\<not> float_max < exp loss"
    using evaluated_run [OF assms] that by simp
  show ?thesis
  proof (intro conjI impI)
    assume "exp loss \<le> float_max"
    then have "\<not> float_max < exp loss" by simp
    from in_range [OF this]
    show "r = Inr ()"
      and "WandbLog [(''perplexity'', exp loss)] \<in> set (trace w)"
      and "Write (path_join (output_dir ta) ''eval_results_lm.txt'')
             (''perplexity = '' @ float_str lib (exp loss) @ [CHR 0x0A]) \<in> set (trace w)"
      by simp_all
  next
    assume zero: "loss = 0"
    then have "\<not> float_max < exp loss" by (simp add: exp_zero_in_range)
    from in_range [OF this] zero
    show "r = Inr ()"
      and "WandbLog [(''perplexity'', 1)] \<in> set (trace w)"
      and "Write (path_join (output_dir ta) ''eval_results_lm.txt'')
             (''perplexity = '' @ float_str lib 1 @ [CHR 0x0A]) \<in> set (trace w)"
      by simp_all
  qed
qed

theorem perplexity_is_exp_of_eval_loss_witness:
  "Evaluate (Inr [(''eval_loss'', 0)]) \<in> set (trace (snd (main stub_library world0))) \<and>
   fst (main stub_library world0) = Inr () \<and>
   WandbLog [(''perplexity'', 1)] \<in> set (trace (snd (main stub_library world0))) \<and>
   Write ''/gpt2/eval_results_lm.txt'' (''perplexity = 1.0'' @ [CHR 0x0A])
     \<in> set (trace (snd (main stub_library world0)))"
proof -
  have ev: "Evaluate (Inr [(''eval_loss'', 0)]) \<in> set (trace (snd (main stub_library world0)))"
    by (simp add: stub_run)
  have loss: "map_of [(''eval_loss'', 0::real)] ''eval_loss'' = Some 0"
    by simp
  from perplexity_is_exp_of_eval_loss [OF stub_body_run ev loss] ev
  show ?thesis
    by (simp add: stub_run stub_float_str default_results_path)
qed






text \<open>
  C5. The claim: the results file holds the perplexity and the raw evaluation metrics the
  trainer returned. On the stub library the trainer returns \<open>eval_loss = 0\<close>, and the
  file written is the one line \<open>perplexity = 1.0\<close>: the evaluation loss is not in it.
\<close>

theorem results_file_lacks_raw_metrics:
  "Evaluate (Inr [(''eval_loss'', 0)]) \<in> set (trace (snd (main stub_library world0))) \<and>
   files (snd (main stub_library world0)) ''/gpt2/eval_results_lm.txt'' =
     Some (''perplexity = 1.0'' @ [CHR 0x0A]) \<and>
   \<not> sublist ''eval_loss'' (''perplexity = 1.0'' @ [CHR 0x0A])"
  by (simp add: stub_run sublist_code)

text \<open>
  C5, as amended. In every run that completes, the results file holds exactly one line,
  \<open>perplexity = \<close> followed by the printed exponential of the evaluation loss, and that is
  the only write the run makes, whatever other metrics the trainer returned; the raw
  evaluation loss goes to the metrics service.
\<close>

theorem results_file_holds_perplexity_only:
  assumes "main_body lib ma da ta (w0\<lparr>trace := []\<rparr>) = (Inr (), w)"
      and "Evaluate (Inr ev) \<in> set (trace w)"
      and "map_of ev ''eval_loss'' = Some loss"
  shows "files w = (files w0)(path_join (output_dir ta) ''eval_results_lm.txt'' \<mapsto>
            ''perplexity = '' @ float_str lib (exp loss) @ [CHR 0x0A]) \<and>
         (\<forall>p s. Write p s \<in> set (trace w) \<longrightarrow>
            p = path_join (output_dir ta) ''eval_results_lm.txt'' \<and>
            s = ''perplexity = '' @ float_str lib (exp loss) @ [CHR 0x0A]) \<and>
         WandbLog [(''eval_loss'', loss)] \<in> set (trace w)"
proof (cases "float_max < exp loss")
  case True
  with evaluated_run [OF assms] show ?thesis by simp
next
  case False
  with evaluated_run [OF assms] show ?thesis by simp
qed

theorem results_file_holds_perplexity_only_witness:
  "Evaluate (Inr [(''eval_loss'', 0)]) \<in> set (trace (snd (main stub_library world0))) \<and>
   files (snd (main stub_library world0)) =
     (files world0)(''/gpt2/eval_results_lm.txt'' \<mapsto> ''perplexity = 1.0'' @ [CHR 0x0A]) \<and>
   WandbLog [(''eval_loss'', 0)] \<in> set (trace (snd (main stub_library world0)))"
proof -
  have ev: "Evaluate (Inr [(''eval_loss'', 0)]) \<in> set (trace (snd (main stub_library world0)))"
    by (simp add: stub_run)
  have loss: "map_of [(''eval_loss'', 0::real)] ''eval_loss'' = Some 0"
    by simp
  from results_file_holds_perplexity_only [OF stub_body_run ev loss] ev
  show ?thesis
    by (simp add: stub_float_str default_results_path)
qed

text \<open>
  C6. In every run that completes, the timer is read exactly twice, the only event between
  the two readings is the training call, and saving the model and evaluating come after
  the second reading. The time printed and sent as \<open>train_time\<close> is the difference of the
  two readings, in hours, which is the duration of the training call alone; the clock at
  the end of the run is later by the durations of saving and of evaluation.
\<close>

theorem training_time_spans_train_call_only:
  assumes "main_body lib ma da ta (w0\<lparr>trace := []\<rparr>) = (Inr (), w)"
  shows "\<exists>t0 t1 mp tloss ev.
     filter is_timer (trace w) = [Timer t0, Timer t1] \<and>
     take 3 (dropWhile (\<lambda>e. \<not> is_timer e) (trace w)) =
       [Timer t0, Train mp (Inr tloss), Timer t1] \<and>
     t1 - t0 = train_secs lib \<and>
     SaveModel \<in> set (drop 3 (dropWhile (\<lambda>e. \<not> is_timer e) (trace w))) \<and>
     Evaluate (Inr ev) \<in> set (drop 3 (dropWhile (\<lambda>e. \<not> is_timer e) (trace w))) \<and>
     Print (''Training took '' @ float_str lib ((t1 - t0) / 3600) @ '' hours.'')
       \<in> set (trace w) \<and>
     WandbLog [(''train_time'', (t1 - t0) / 3600)] \<in> set (trace w) \<and>
     clock w = t1 + save_secs lib + eval_secs lib"
  using assms unfolding main_body_def
  by (clarsimp simp: bnd_def call_ext_def section_eqs Let_def if_overflow_eq_Inr
        split: sum.splits option.splits if_splits)

theorem training_time_spans_train_call_only_witness:
  "filter is_timer (trace (snd (main stub_library world0))) = [Timer 100, Timer 7300] \<and>
   train_secs stub_library = 7200 \<and> save_secs stub_library = 60 \<and> eval_secs stub_library = 600 \<and>
   Print ''Training took 2.0 hours.'' \<in> set (trace (snd (main stub_library world0))) \<and>
   WandbLog [(''train_time'', 2)] \<in> set (trace (snd (main stub_library world0))) \<and>
   clock (snd (main stub_library world0)) = 7960"
proof -
  have secs: "train_secs stub_library = 7200" "save_secs stub_library = 60"
    "eval_secs stub_library = 600"
    by (simp_all add: stub_library_def)
  from training_time_spans_train_call_only [OF stub_body_run] secs
  show ?thesis
    by (simp add: stub_run)
qed

text \<open>
  C7. For every data configuration, tokenizer and evaluate flag, \<open>get_dataset\<close> makes
  exactly one constructor call, the one the specification describes (\<open>spec_dataset\<close>: the
  eval file when the flag is set and the train file otherwise, line by line when that flag
  is set and in contiguous chunks otherwise, with the tokenizer and the configured block
  size), and returns what the constructor returns or raises what it raises.
\<close>

theorem get_dataset_delegates:
  "get_dataset lib args tok evaluate w =
     (case dataset_error lib (spec_dataset args tok evaluate) of
        None \<Rightarrow> Inr (spec_dataset args tok evaluate)
      | Some e \<Rightarrow> Inl e,
      w\<lparr>trace := trace w @ [Construct (spec_dataset args tok evaluate)]\<rparr>)"
  by (rule get_dataset_eq)

text \<open>
  C8. No bound is checked on the evaluation loss: in every run where the trainer returned
  an evaluation loss of 1024 or more, the exponential overflows, the run ends with
  \<open>OverflowError\<close> right after the evaluation call, and no file is written.
\<close>

theorem large_loss_overflows_uncaught:
  assumes "main_body lib ma da ta (w0\<lparr>trace := []\<rparr>) = (r, w)"
      and "Evaluate (Inr ev) \<in> set (trace w)"
      and "map_of ev ''eval_loss'' = Some loss"
      and "1024 \<le> loss"
  shows "r = Inl OverflowError \<and> last (trace w) = Evaluate (Inr ev) \<and> files w = files w0"
  using evaluated_run [OF assms(1-3)] exp_overflow [OF assms(4)] by simp

theorem large_loss_overflows_uncaught_witness:
  "Evaluate (Inr [(''eval_loss'', 1024)]) \<in> set (trace (snd (main overflow_library world0))) \<and>
   fst (main overflow_library world0) = Inl OverflowError \<and>
   last (trace (snd (main overflow_library world0))) = Evaluate (Inr [(''eval_loss'', 1024)]) \<and>
   files (snd (main overflow_library world0)) ''/gpt2/eval_results_lm.txt'' = Some ''perplexity = 37.5''"
proof -
  have loss: "map_of [(''eval_loss'', 1024::real)] ''eval_loss'' = Some 1024"
    by simp
  have old: "files world0 ''/gpt2/eval_results_lm.txt'' = Some ''perplexity = 37.5''"
    by (simp add: world0_def)
  from large_loss_overflows_uncaught [OF overflow_body_run overflow_evaluated loss] old
    overflow_evaluated
  show ?thesis
    by simp
qed

text \<open>
  C9. \<open>get_dataset\<close> does the same whatever \<open>overwrite_cache\<close> is, and so does the whole
  body of \<open>main\<close>: the flag is never read.
\<close>

theorem get_dataset_ignores_overwrite_cache:
  "get_dataset lib (args\<lparr>overwrite_cache := b\<rparr>) tok evaluate w = get_dataset lib args tok evaluate w \<and>
   main_body lib ma (args\<lparr>overwrite_cache := b\<rparr>) ta w = main_body lib ma args ta w"
proof -
  have same: "get_dataset lib (args\<lparr>overwrite_cache := b\<rparr>) t ev = get_dataset lib args t ev"
    for t ev
    by (simp add: get_dataset_def Let_def)
  have datasets: "load_dataset lib (args\<lparr>overwrite_cache := b\<rparr>) ta t = load_dataset lib args ta t"
    for t
    by (simp add: load_dataset_def same cong: if_cong)
  have trainer: "initialize_trainer (args\<lparr>overwrite_cache := b\<rparr>) ta t m tds eds =
      initialize_trainer args ta t m tds eds" for t m tds eds
    by (simp add: initialize_trainer_def)
  show ?thesis
    by (simp add: same datasets trainer main_body_def)
qed

text \<open>
  C10. In every run, the \<open>model_path\<close> passed to the training call is the configured
  model name when that name is an existing directory, and \<open>None\<close> otherwise; with the
  name \<open>gpt2\<close> that the script spells out and no such directory, it is \<open>None\<close>.
\<close>

theorem train_receives_resume_path:
  assumes "main_body lib ma da ta (w0\<lparr>trace := []\<rparr>) = (r, w)"
      and "Train mp outcome \<in> set (trace w)"
  shows "mp = (case model_name_or_path ma of None \<Rightarrow> None
               | Some p \<Rightarrow> if p \<in> dirs w0 then Some p else None) \<and>
         (ma = default_model_args \<longrightarrow> ''gpt2'' \<notin> dirs w0 \<longrightarrow> mp = None)"
proof -
  have "mp = (case model_name_or_path ma of None \<Rightarrow> None
               | Some p \<Rightarrow> if p \<in> dirs w0 then Some p else None)"
    using assms unfolding main_body_def
    by (clarsimp simp: bnd_def call_ext_def section_eqs Let_def mem_if_single
          split: sum.splits option.splits split del: if_split)
  then show ?thesis
    by (simp add: default_model_args_def)
qed

theorem train_receives_resume_path_witness:
  "Train None (Inr 2) \<in> set (trace (snd (main stub_library world0))) \<and>
   model_name_or_path default_model_args = Some ''gpt2'' \<and> ''gpt2'' \<notin> dirs world0"
proof -
  have trained: "Train None (Inr 2) \<in> set (trace (snd (main stub_library world0)))"
    by (simp add: stub_run)
  from train_receives_resume_path [OF stub_body_run trained] trained
  show ?thesis
    by (simp add: default_model_args_def world0_def)
qed

end
